theory Spec2Isabelle
  imports Complex_Main "HOL-Library.Signed_Division"
begin

section \<open>The audio player component (src/components/AudioPlayer.tsx)\<close>

text \<open>
  The component is a React function component. Every render runs the function body
  again, so each handler defined in the body is a closure over the values the state
  variables had in \<^emph>\<open>that\<close> render. The embedding makes this explicit: a handler
  takes the render snapshot \<open>r\<close> it closes over and returns the list of actions it
  performs, in program order (platform calls, log lines and calls of the state setters).
  The setters replace a state variable by a given value, so a list of actions is run
  on whatever the state is when the actions happen.

  JavaScript numbers are IEEE doubles. A number that holds milliseconds is modelled as
  a whole number (\<open>int\<close>). Where the code does arithmetic on it (\<open>formatTime\<close>), the
  model is restricted to the safe integers, on which the double arithmetic of the code
  is exact. Volume levels are \<open>real\<close>; no arithmetic is done on levels.
\<close>

subsection \<open>Time labels: \<open>formatTime\<close> (lines 138-143)\<close>










subsection \<open>UI state (lines 14-19) and playback status\<close>

type_synonym handle = nat

text \<open>
  A field of the raw status object is typed \<open>any\<close> in the source; the model admits a
  number, a missing field (\<open>undefined\<close>), \<open>null\<close> and \<open>NaN\<close>.
\<close>

datatype jsnum = Undefined | Null | NaN | Num int

record ui_state =
  sound :: "handle option"
  isPlaying :: bool
  duration :: jsnum
  position :: jsnum
  volume :: real
  isSeeking :: bool

text \<open>The \<open>useState\<close> initialisers.\<close>

definition initial_state :: ui_state where
  "initial_state =
     \<lparr>sound = None, isPlaying = False, duration = Num 0, position = Num 0, volume = 1,
      isSeeking = False\<rparr>"

record status =
  isLoaded :: bool
  durationMillis :: jsnum
  positionMillis :: jsnum
  status_isPlaying :: bool

text \<open>JavaScript's \<open>a || b\<close>: \<open>a\<close> when it is truthy, else \<open>b\<close>.\<close>

fun truthy :: "jsnum \<Rightarrow> bool" where
  "truthy (Num n) = (n \<noteq> 0)"
| "truthy _ = False"

definition js_or :: "jsnum \<Rightarrow> jsnum \<Rightarrow> jsnum" where
  "js_or a b = (if truthy a then a else b)"

subsection \<open>Actions of a handler\<close>

datatype call =
    RequestPermissionsAsync
  | SetAudioModeAsync
  | GetVolume
  | OnChange
  | RemoveListener
  | VolumeChange real
  | CreateAsync string
  | UnloadAsync handle
  | PlayAsync handle
  | PauseAsync handle
  | SetPositionAsync handle int
  | SetVolumeAsync handle real

datatype action =
    Call call
  | Log string
  | LogError string
  | SetSound handle
  | SetIsPlaying bool
  | SetDuration jsnum
  | SetPosition jsnum
  | SetVolume real
  | SetIsSeeking bool

fun apply_action :: "action \<Rightarrow> ui_state \<Rightarrow> ui_state" where
  "apply_action (SetSound h) s = s\<lparr>sound := Some h\<rparr>"
| "apply_action (SetIsPlaying b) s = s\<lparr>isPlaying := b\<rparr>"
| "apply_action (SetDuration d) s = s\<lparr>duration := d\<rparr>"
| "apply_action (SetPosition p) s = s\<lparr>position := p\<rparr>"
| "apply_action (SetVolume v) s = s\<lparr>volume := v\<rparr>"
| "apply_action (SetIsSeeking b) s = s\<lparr>isSeeking := b\<rparr>"
| "apply_action _ s = s"

definition run :: "action list \<Rightarrow> ui_state \<Rightarrow> ui_state" where
  "run acts s = fold apply_action acts s"

text \<open>The platform calls among the actions, in order.\<close>

fun calls :: "action list \<Rightarrow> call list" where
  "calls [] = []"
| "calls (Call c # acts) = c # calls acts"
| "calls (_ # acts) = calls acts"

subsection \<open>The handlers\<close>

text \<open>
  Where a handler awaits a platform call inside \<open>try\<close>, the outcome of the call is a
  parameter: \<open>True\<close> when the promise is fulfilled, \<open>False\<close> when the call throws or the
  promise is rejected, which skips the rest of the \<open>try\<close> block and runs the \<open>catch\<close>.
\<close>

text \<open>
  Lines 65-72, the function given to \<open>throttle\<close>. \<open>isSeeking\<close> is the constant of the
  render \<open>r\<close> in which this function was created.
\<close>

definition onPlaybackStatusUpdate :: "ui_state \<Rightarrow> status \<Rightarrow> action list" where
  "onPlaybackStatusUpdate r st =
     (if isLoaded st \<and> \<not> isSeeking r then
        [SetDuration (js_or (durationMillis st) (Num 0)),
         SetPosition (js_or (positionMillis st) (Num 0)),
         SetIsPlaying (status_isPlaying st),
         Log ''Playback status:'']
      else [])"

text \<open>Lines 75-89.\<close>

definition handlePlayPause :: "ui_state \<Rightarrow> bool \<Rightarrow> action list" where
  "handlePlayPause r ok =
     (case sound r of
        None \<Rightarrow> []
      | Some h \<Rightarrow>
          (if isPlaying r then [Log ''Pausing audio'', Call (PauseAsync h)]
           else [Log ''Playing audio'', Call (PlayAsync h)]) @
          (if ok then [] else [LogError ''Error toggling play/pause:'']))"

text \<open>Lines 92-94.\<close>

definition handleSlidingStart :: "action list" where
  "handleSlidingStart = [SetIsSeeking True]"

text \<open>Lines 97-106.\<close>

definition handleSlidingComplete :: "ui_state \<Rightarrow> int \<Rightarrow> bool \<Rightarrow> action list" where
  "handleSlidingComplete r v ok =
     (case sound r of
        None \<Rightarrow> []
      | Some h \<Rightarrow>
          Call (SetPositionAsync h v) #
          (if ok then [SetPosition (Num v), SetIsSeeking False] else [LogError ''Error seeking:'']))"

text \<open>
  Lines 109-121. One \<open>try\<close> block holds the system call, the resource call and the
  setter; \<open>system_ok\<close> and \<open>resource_ok\<close> are the outcomes of the two calls.
\<close>

definition handleVolumeChange :: "ui_state \<Rightarrow> real \<Rightarrow> bool \<Rightarrow> bool \<Rightarrow> action list" where
  "handleVolumeChange r v system_ok resource_ok =
     Call (VolumeChange v) #
     (if system_ok then
        (case sound r of
           None \<Rightarrow> [SetVolume v]
         | Some h \<Rightarrow>
             Call (SetVolumeAsync h v) #
             (if resource_ok then [SetVolume v] else [LogError ''Error changing volume:'']))
      else [LogError ''Error changing volume:''])"

text \<open>
  Lines 125-129, the function given to \<open>VolumeController.onChange\<close>. A rejection of
  \<open>setVolumeAsync\<close> goes to \<open>console.error\<close> alone.
\<close>

definition volumeListener :: "ui_state \<Rightarrow> real \<Rightarrow> bool \<Rightarrow> action list" where
  "volumeListener r v ok =
     SetVolume v #
     (case sound r of
        None \<Rightarrow> []
      | Some h \<Rightarrow> Call (SetVolumeAsync h v) # (if ok then [] else [LogError []]))"

subsection \<open>Suspended asynchronous functions\<close>

text \<open>
  \<open>initAudio\<close> (lines 22-39) and \<open>loadAudio\<close> (lines 42-62) suspend at each \<open>await\<close>
  and let other events in. A task is such a function at one of its suspension points,
  with what it closes over. \<open>Detached\<close> is the promise of an \<open>unloadAsync\<close> that an
  effect cleanup starts and nobody awaits (line 160).
\<close>

datatype task =
    InitPermissions
  | InitAudioMode
  | InitVolume
  | LoadUnload handle ui_state string
  | LoadCreate ui_state string
  | Detached handle

text \<open>\<open>loadAudio\<close> from line 49 on, and from its start, for the render \<open>r\<close> and its \<open>uri\<close>.\<close>

definition loadAudio_create :: "ui_state \<Rightarrow> string \<Rightarrow> action list \<times> task" where
  "loadAudio_create r u = ([Log ''Loading audio from URI:'', Call (CreateAsync u)], LoadCreate r u)"

definition loadAudio :: "ui_state \<Rightarrow> string \<Rightarrow> action list \<times> task" where
  "loadAudio r u =
     (case sound r of
        Some h \<Rightarrow> ([Call (UnloadAsync h)], LoadUnload h r u)
      | None \<Rightarrow> loadAudio_create r u)"

text \<open>The cleanup of the \<open>[uri]\<close> effect (lines 159-161), for the render \<open>r\<close> it was created in.\<close>

definition uri_cleanup :: "ui_state \<Rightarrow> action list \<times> task list" where
  "uri_cleanup r =
     (case sound r of None \<Rightarrow> ([], []) | Some h \<Rightarrow> ([Call (UnloadAsync h)], [Detached h]))"

subsection \<open>The mounted component and the platform\<close>

text \<open>
  \<open>ui\<close> is the React state and \<open>uri\<close> the prop. \<open>pending\<close> are the suspended tasks,
  \<open>loaded\<close> the handles the platform has loaded, \<open>subscribers\<close> the status subscriber the
  platform holds for each handle: the render snapshot of the \<open>onPlaybackStatusUpdate\<close>
  that \<open>loadAudio\<close> passed to \<open>createAsync\<close> (line 53). \<open>uri_effect\<close> is the render in
  which the \<open>[uri]\<close> effect last ran, \<open>listener\<close> the render in which the \<open>[sound]\<close>
  effect last subscribed (\<open>None\<close>: no subscription). \<open>trace\<close> collects every action.
\<close>

record world =
  ui :: ui_state
  uri :: string
  mounted :: bool
  pending :: "task list"
  loaded :: "handle list"
  subscribers :: "(handle \<times> ui_state) list"
  uri_effect :: ui_state
  listener :: "ui_state option"
  next_handle :: handle
  trace :: "action list"

text \<open>
  The first render and its effects, in the order of the source: the volume listener
  (line 124), \<open>initAudio\<close> (line 150), the \<open>[uri]\<close> effect (line 155).
\<close>

definition mount :: "string \<Rightarrow> world" where
  "mount u =
     (let r = initial_state;
          (acts, ts) = (if u = [] then ([], []) else (let (a, t) = loadAudio r u in (a, [t])))
      in \<lparr>ui = r, uri = u, mounted = True, pending = InitPermissions # ts, loaded = [],
          subscribers = [], uri_effect = r, listener = Some r, next_handle = 0,
          trace = [Call OnChange, Call RequestPermissionsAsync] @ acts\<rparr>)"

text \<open>
  Running actions on the state. A setter of an unmounted component does nothing. When
  \<open>sound\<close> changed, the next render re-runs the \<open>[sound]\<close> effect: the old listener is
  removed and one closing over the new render is subscribed (lines 124-135). A state
  change, the render it causes and the effects of that render are one step: no event
  comes between them.
\<close>

definition commit :: "action list \<Rightarrow> world \<Rightarrow> world" where
  "commit acts w =
     (if mounted w then
        (let s = run acts (ui w) in
         if sound s = sound (ui w) then w\<lparr>ui := s, trace := trace w @ acts\<rparr>
         else w\<lparr>ui := s, listener := Some s,
                trace := trace w @ acts @ [Call RemoveListener, Call OnChange]\<rparr>)
      else w\<lparr>trace := trace w @ acts\<rparr>)"

definition remove_at :: "nat \<Rightarrow> 'a list \<Rightarrow> 'a list" where
  "remove_at i xs = take i xs @ drop (Suc i) xs"

text \<open>
  The platform settles the promise task \<open>i\<close> waits for. A fulfilled \<open>unloadAsync\<close>
  has unloaded its handle; a fulfilled \<open>createAsync\<close> has loaded a fresh handle that
  holds the subscriber it was given.
\<close>

fun settle :: "task \<Rightarrow> bool \<Rightarrow> nat \<Rightarrow> world \<Rightarrow> world" where
  "settle InitPermissions ok i w =
     (if ok then w\<lparr>pending := (pending w)[i := InitAudioMode],
                   trace := trace w @ [Call SetAudioModeAsync]\<rparr>
      else w\<lparr>pending := remove_at i (pending w),
             trace := trace w @ [LogError ''Error initializing audio:'']\<rparr>)"
| "settle InitAudioMode ok i w =
     (if ok then w\<lparr>pending := (pending w)[i := InitVolume], trace := trace w @ [Call GetVolume]\<rparr>
      else w\<lparr>pending := remove_at i (pending w),
             trace := trace w @ [LogError ''Error initializing audio:'']\<rparr>)"
| "settle InitVolume ok i w = w"
| "settle (LoadUnload h r u) ok i w =
     (if ok then
        w\<lparr>pending := (pending w)[i := snd (loadAudio_create r u)],
          loaded := removeAll h (loaded w),
          trace := trace w @ fst (loadAudio_create r u)\<rparr>
      else w\<lparr>pending := remove_at i (pending w),
             trace := trace w @ [LogError ''Error loading audio:'']\<rparr>)"
| "settle (LoadCreate r u) ok i w =
     (if ok then
        commit [Log ''Audio loaded, status:'', SetSound (next_handle w)]
          (w\<lparr>pending := remove_at i (pending w),
             loaded := loaded w @ [next_handle w],
             subscribers := (next_handle w, r) # subscribers w,
             next_handle := Suc (next_handle w)\<rparr>)
      else w\<lparr>pending := remove_at i (pending w),
             trace := trace w @ [LogError ''Error loading audio:'']\<rparr>)"
| "settle (Detached h) ok i w =
     w\<lparr>pending := remove_at i (pending w),
       loaded := (if ok then removeAll h (loaded w) else loaded w)\<rparr>"

text \<open>
  What can happen to a mounted component. \<open>UriChanged\<close> is a render with a new prop:
  the cleanup of the previous \<open>[uri]\<close> effect runs with the \<open>sound\<close> of the render
  that created it, then the effect runs in the new render. \<open>StatusUpdate h st\<close> is the
  throttled subscriber of handle \<open>h\<close> calling its function on \<open>st\<close>; which of the raw
  statuses the \<open>throttle\<close> wrapper of the library passes on, and when, is not part of
  the component and not modelled. The handlers that the rendered tree holds
  (\<open>handlePlayPause\<close>, and the \<open>useCallback\<close> ones, whose dependencies list every state
  variable they read) close over the current render.
\<close>

datatype event =
    UriChanged string
  | Settled nat bool
  | VolumeRead nat real
  | StatusUpdate handle status
  | PlayPausePressed bool
  | SlidingStart
  | SlidingComplete int bool
  | VolumeCommitted real bool bool
  | VolumeNotified real bool
  | Unmount

fun step :: "world \<Rightarrow> event \<Rightarrow> world" where
  "step w (UriChanged u) =
     (if mounted w \<and> u \<noteq> uri w then
        (let (cacts, cts) = uri_cleanup (uri_effect w);
             (lacts, lts) = (if u = [] then ([], []) else (let (a, t) = loadAudio (ui w) u in (a, [t])))
         in w\<lparr>uri := u, uri_effect := ui w, pending := pending w @ cts @ lts,
              trace := trace w @ cacts @ lacts\<rparr>)
      else w)"
| "step w (Settled i ok) =
     (if i < length (pending w) then settle (pending w ! i) ok i w else w)"
| "step w (VolumeRead i v) =
     (if i < length (pending w) \<and> pending w ! i = InitVolume
      then commit [SetVolume v] (w\<lparr>pending := remove_at i (pending w)\<rparr>) else w)"
| "step w (StatusUpdate h st) =
     (case map_of (subscribers w) h of
        None \<Rightarrow> w
      | Some r \<Rightarrow> commit (onPlaybackStatusUpdate r st) w)"
| "step w (PlayPausePressed ok) =
     (if mounted w then commit (handlePlayPause (ui w) ok) w else w)"
| "step w SlidingStart =
     (if mounted w then commit handleSlidingStart w else w)"
| "step w (SlidingComplete v ok) =
     (if mounted w then commit (handleSlidingComplete (ui w) v ok) w else w)"
| "step w (VolumeCommitted v system_ok resource_ok) =
     (if mounted w then commit (handleVolumeChange (ui w) v system_ok resource_ok) w else w)"
| "step w (VolumeNotified v ok) =
     (case listener w of
        None \<Rightarrow> w
      | Some r \<Rightarrow> commit (volumeListener r v ok) w)"
| "step w Unmount =
     (if mounted w then
        (let (cacts, cts) = uri_cleanup (uri_effect w)
         in w\<lparr>mounted := False, listener := None, pending := pending w @ cts,
              trace := trace w @ [Call RemoveListener] @ cacts\<rparr>)
      else w)"

definition run_events :: "string \<Rightarrow> event list \<Rightarrow> world" where
  "run_events u es = foldl step (mount u) es"

subsection \<open>Predicates of the statements\<close>

text \<open>A state whose \<open>duration\<close> and \<open>position\<close> are numbers, and an action that keeps it so.\<close>

fun is_num :: "jsnum \<Rightarrow> bool" where
  "is_num (Num n) = True"
| "is_num _ = False"

definition numeric :: "ui_state \<Rightarrow> bool" where
  "numeric s = (is_num (duration s) \<and> is_num (position s))"

fun numeric_action :: "action \<Rightarrow> bool" where
  "numeric_action (SetDuration d) = is_num d"
| "numeric_action (SetPosition p) = is_num p"
| "numeric_action _ = True"

text \<open>
  The volume subscription of a mounted component closes over the \<open>sound\<close> of the
  current render; an unmounted component has none.
\<close>

definition bridge_ok :: "world \<Rightarrow> bool" where
  "bridge_ok w =
     (if mounted w then map_option sound (listener w) = Some (sound (ui w))
      else listener w = None)"

section \<open>Properties\<close>

subsection \<open>Evaluation and the state setters\<close>

lemmas handler_defs =
  onPlaybackStatusUpdate_def handlePlayPause_def handleSlidingStart_def handleSlidingComplete_def
  handleVolumeChange_def volumeListener_def loadAudio_def loadAudio_create_def uri_cleanup_def

lemmas world_eval =
  run_events_def mount_def commit_def remove_at_def run_def initial_state_def js_or_def Let_def
  handler_defs

lemma run_Nil: "run [] s = s"
  by (simp add: run_def)

lemma run_Cons: "run (a # acts) s = run acts (apply_action a s)"
  by (simp add: run_def)

lemma ui_commit: "ui (commit acts w) = (if mounted w then run acts (ui w) else ui w)"
  by (simp add: commit_def Let_def)

lemma mounted_commit: "mounted (commit acts w) = mounted w"
  by (simp add: commit_def Let_def)

lemma is_num_js_or: "is_num (js_or x (Num 0))"
  by (cases x) (simp_all add: js_or_def)

lemma numeric_apply: "numeric_action a \<Longrightarrow> numeric s \<Longrightarrow> numeric (apply_action a s)"
  by (cases a) (simp_all add: numeric_def)

lemma numeric_run: "list_all numeric_action acts \<Longrightarrow> numeric s \<Longrightarrow> numeric (run acts s)"
  by (induction acts arbitrary: s) (simp_all add: run_Nil run_Cons numeric_apply)

lemma numeric_commit:
  "list_all numeric_action acts \<Longrightarrow> numeric (ui w) \<Longrightarrow> numeric (ui (commit acts w))"
  by (simp add: ui_commit numeric_run)

lemma numeric_handlers:
  "list_all numeric_action (onPlaybackStatusUpdate r st)"
  "list_all numeric_action (handlePlayPause r ok)"
  "list_all numeric_action handleSlidingStart"
  "list_all numeric_action (handleSlidingComplete r v ok)"
  "list_all numeric_action (handleVolumeChange r x ok ok')"
  "list_all numeric_action (volumeListener r x ok)"
  by (simp_all add: handler_defs is_num_js_or split: option.split)

lemma numeric_settle: "numeric (ui w) \<Longrightarrow> numeric (ui (settle t ok i w))"
  by (cases t) (simp_all add: numeric_commit)

lemma numeric_step: "numeric (ui w) \<Longrightarrow> numeric (ui (step w e))"
  by (cases e)
    (simp_all add: numeric_commit numeric_handlers numeric_settle split: option.split prod.split)

lemma numeric_foldl: "numeric (ui w) \<Longrightarrow> numeric (ui (foldl step w es))"
  by (induction es arbitrary: w) (simp_all add: numeric_step)

lemma numeric_mount: "numeric (ui (mount u))"
  by (simp add: mount_def Let_def numeric_def initial_state_def split: prod.split)

lemma run_append: "run (xs @ ys) s = run ys (run xs s)"
  by (simp add: run_def)

lemma commit_Nil: "commit [] w = w"
  by (simp add: commit_def run_Nil)

subsection \<open>The volume subscription follows \<open>sound\<close>\<close>

lemma bridge_commit: "bridge_ok w \<Longrightarrow> bridge_ok (commit acts w)"
  by (auto simp: bridge_ok_def commit_def Let_def)

lemma bridge_settle: "bridge_ok w \<Longrightarrow> bridge_ok (settle t ok i w)"
proof (cases t)
  case (LoadCreate r u)
  assume "bridge_ok w"
  then have "bridge_ok (w\<lparr>pending := remove_at i (pending w),
             loaded := loaded w @ [next_handle w],
             subscribers := (next_handle w, r) # subscribers w,
             next_handle := Suc (next_handle w)\<rparr>)"
    by (simp add: bridge_ok_def)
  then show ?thesis
    using LoadCreate \<open>bridge_ok w\<close> by (simp add: bridge_commit) (simp add: bridge_ok_def)
qed (auto simp: bridge_ok_def split: if_splits)

lemma bridge_step: "bridge_ok w \<Longrightarrow> bridge_ok (step w e)"
proof (cases e)
  case (VolumeRead i v)
  assume b: "bridge_ok w"
  then have "bridge_ok (w\<lparr>pending := remove_at i (pending w)\<rparr>)"
    by (simp add: bridge_ok_def)
  then show ?thesis using VolumeRead b by (simp add: bridge_commit)
next
  case (UriChanged u)
  assume "bridge_ok w"
  then show ?thesis using UriChanged
    by (auto simp: bridge_ok_def split: prod.split if_splits)
next
  case Unmount
  assume "bridge_ok w"
  then show ?thesis using Unmount
    by (auto simp: bridge_ok_def split: prod.split if_splits)
qed (simp_all add: bridge_commit bridge_settle split: option.split)

lemma bridge_mount: "bridge_ok (mount u)"
  by (simp add: mount_def Let_def bridge_ok_def split: prod.split)

lemma bridge_foldl: "bridge_ok w \<Longrightarrow> bridge_ok (foldl step w es)"
  by (induction es arbitrary: w) (simp_all add: bridge_step)

lemma listener_of_mounted:
  assumes "bridge_ok w" and "mounted w"
  obtains r where "listener w = Some r" and "sound r = sound (ui w)"
  using assms by (auto simp: bridge_ok_def)

lemma sound_volumeListener: "sound (run (volumeListener r v ok) s) = sound s"
  by (simp add: volumeListener_def run_Cons run_Nil split: option.split)

lemma volume_volumeListener: "volume (run (volumeListener r v ok) s) = v"
  by (simp add: volumeListener_def run_Cons run_Nil split: option.split)

lemma notified_step:
  assumes "listener w = Some r" and "mounted w"
  shows "step w (VolumeNotified v ok) =
    w\<lparr>ui := run (volumeListener r v ok) (ui w), trace := trace w @ volumeListener r v ok\<rparr>"
  using assms by (simp add: commit_def Let_def sound_volumeListener)

subsection \<open>Time labels\<close>













subsection \<open>Initial state\<close>

text \<open>
  C9. At mount, before any platform callback has fired, the UI state is: no handle owned,
  \<open>isPlaying = false\<close>, \<open>durationMs = 0\<close>, \<open>positionMs = 0\<close>, \<open>volume = 1.0\<close>,
  \<open>isSeeking = false\<close>. The effects of the first render only start platform calls.
\<close>

theorem mount_initial_state:
  "ui (mount u) =
     \<lparr>sound = None, isPlaying = False, duration = Num 0, position = Num 0, volume = 1,
      isSeeking = False\<rparr>"
  by (simp add: mount_def Let_def initial_state_def split: prod.split)

subsection \<open>Status updates\<close>

text \<open>
  C10. When a status update is applied, \<open>duration\<close> and \<open>position\<close> become
  \<open>status.durationMillis || 0\<close> and \<open>status.positionMillis || 0\<close>: a missing field
  (\<open>undefined\<close>), \<open>null\<close> and \<open>0\<close> all give \<open>0\<close>, any other number gives itself, and the
  result is a number in every case. In every state the component reaches, \<open>duration\<close> and
  \<open>position\<close> are numbers.
\<close>

theorem status_fields_coalesced:
  "js_or Undefined (Num 0) = Num 0 \<and> js_or Null (Num 0) = Num 0 \<and> js_or (Num 0) (Num 0) = Num 0 \<and>
   (n \<noteq> 0 \<longrightarrow> js_or (Num n) (Num 0) = Num n) \<and>
   (isLoaded st \<and> \<not> isSeeking r \<longrightarrow>
      duration (run (onPlaybackStatusUpdate r st) s) = js_or (durationMillis st) (Num 0) \<and>
      position (run (onPlaybackStatusUpdate r st) s) = js_or (positionMillis st) (Num 0) \<and>
      is_num (js_or (durationMillis st) (Num 0)) \<and> is_num (js_or (positionMillis st) (Num 0))) \<and>
   numeric (ui (run_events u es))"
proof (intro conjI impI)
  show "numeric (ui (run_events u es))"
    unfolding run_events_def by (rule numeric_foldl) (rule numeric_mount)
qed (simp_all add: is_num_js_or onPlaybackStatusUpdate_def run_Cons run_Nil, simp_all add: js_or_def)

theorem status_fields_coalesced_witness:
  "js_or (Num 7) (Num 0) = Num 7 \<and>
   duration (run (onPlaybackStatusUpdate initial_state
      \<lparr>isLoaded = True, durationMillis = Undefined, positionMillis = Null,
       status_isPlaying = True\<rparr>) (initial_state\<lparr>duration := Num 9, position := Num 4\<rparr>)) = Num 0 \<and>
   position (run (onPlaybackStatusUpdate initial_state
      \<lparr>isLoaded = True, durationMillis = Undefined, positionMillis = Null,
       status_isPlaying = True\<rparr>) (initial_state\<lparr>duration := Num 9, position := Num 4\<rparr>)) = Num 0"
  using status_fields_coalesced [where n = 7 and r = initial_state and u = "[]" and es = "[]"
      and st = "\<lparr>isLoaded = True, durationMillis = Undefined, positionMillis = Null,
        status_isPlaying = True\<rparr>"
      and s = "initial_state\<lparr>duration := Num 9, position := Num 4\<rparr>"]
  by (simp add: initial_state_def js_or_def)

text \<open>
  C1. The claim is that no status update changes \<open>position\<close> or \<open>isPlaying\<close> while
  \<open>isSeeking\<close> is true. The subscriber a handle holds is the \<open>onPlaybackStatusUpdate\<close> of
  the render that called \<open>loadAudio\<close> (line 53), and its \<open>isSeeking\<close> is that render's
  constant; no later render replaces the subscriber. So after mounting with uri \<open>a\<close>, the
  load completing and the user starting a drag (\<open>isSeeking\<close> is now true), a loaded status
  with position 5000 and \<open>isPlaying = true\<close> is still applied: the guard of line 66 reads
  the \<open>false\<close> of the first render.
\<close>

theorem seeking_guard_stale:
  "isSeeking (ui (run_events ''a'' [Settled 1 True, SlidingStart])) \<and>
   ui (run_events ''a'' [Settled 1 True, SlidingStart,
        StatusUpdate 0 \<lparr>isLoaded = True, durationMillis = Num 60000, positionMillis = Num 5000,
          status_isPlaying = True\<rparr>]) =
     \<lparr>sound = Some 0, isPlaying = True, duration = Num 60000, position = Num 5000, volume = 1,
      isSeeking = True\<rparr>"
  by (simp add: world_eval)

subsection \<open>Loading\<close>

text \<open>
  C2. The claim is that at most one handle is loaded at any instant. \<open>loadAudio\<close> unloads
  the \<open>sound\<close> of its render first (lines 45-47), but a load that is still in flight has
  not set \<open>sound\<close> yet. Mount with uri \<open>a\<close>, change the uri to \<open>b\<close> before
  \<open>createAsync\<close> for \<open>a\<close> is settled, then let both loads complete: the platform holds
  the two handles 0 and 1 at once, and \<open>unloadAsync\<close> was never called.
\<close>

theorem overlapping_loads:
  "loaded (run_events ''a'' [UriChanged ''b'', Settled 1 True, Settled 1 True]) = [0, 1] \<and>
   calls (trace (run_events ''a'' [UriChanged ''b'', Settled 1 True, Settled 1 True])) =
     [OnChange, RequestPermissionsAsync, CreateAsync ''a'', CreateAsync ''b'',
      RemoveListener, OnChange, RemoveListener, OnChange]"
  by (simp add: world_eval)

subsection \<open>Transport controls\<close>

text \<open>
  C6. The play/pause toggle does nothing when no handle is owned. With a handle \<open>h\<close> it
  makes exactly one platform call: \<open>pauseAsync\<close> when \<open>isPlaying\<close> is true, \<open>playAsync\<close>
  otherwise. A failure is logged. It calls no state setter: running its actions leaves
  any state as it is, and the press leaves the UI state of the component unchanged.
\<close>

theorem play_pause_toggle:
  "(sound r = None \<longrightarrow> handlePlayPause r ok = []) \<and>
   (sound r = Some h \<and> isPlaying r \<longrightarrow> calls (handlePlayPause r ok) = [PauseAsync h]) \<and>
   (sound r = Some h \<and> \<not> isPlaying r \<longrightarrow> calls (handlePlayPause r ok) = [PlayAsync h]) \<and>
   (sound r = Some h \<and> \<not> ok \<longrightarrow>
      LogError ''Error toggling play/pause:'' \<in> set (handlePlayPause r ok)) \<and>
   run (handlePlayPause r ok) s = s \<and>
   ui (step w (PlayPausePressed ok)) = ui w"
proof -
  have same: "run (handlePlayPause r' ok) s' = s'" for r' s'
    by (simp add: handlePlayPause_def run_Cons run_Nil run_append split: option.split)
  show ?thesis
    by (simp add: same ui_commit) (auto simp: handlePlayPause_def)
qed

theorem play_pause_toggle_witness:
  "handlePlayPause initial_state True = [] \<and>
   calls (handlePlayPause (initial_state\<lparr>sound := Some 3, isPlaying := True\<rparr>) True) = [PauseAsync 3] \<and>
   calls (handlePlayPause (initial_state\<lparr>sound := Some 3\<rparr>) False) = [PlayAsync 3] \<and>
   LogError ''Error toggling play/pause:'' \<in> set (handlePlayPause (initial_state\<lparr>sound := Some 3\<rparr>) False)"
  using play_pause_toggle [where r = initial_state and ok = True]
    play_pause_toggle [where r = "initial_state\<lparr>sound := Some 3, isPlaying := True\<rparr>"
      and h = 3 and ok = True]
    play_pause_toggle [where r = "initial_state\<lparr>sound := Some 3\<rparr>" and h = 3 and ok = False]
  by (simp add: initial_state_def)

text \<open>
  C7. Seek commit with target \<open>v\<close> does nothing when no handle is owned. With a handle
  \<open>h\<close> and a successful \<open>setPositionAsync\<close>, it asks the resource to jump to \<open>v\<close>, then
  sets \<open>position\<close> to \<open>v\<close>, then clears \<open>isSeeking\<close>, in this order; the UI state of the
  component afterwards differs from the one before in exactly these two fields.
\<close>

theorem seek_commit:
  "(sound r = None \<longrightarrow> handleSlidingComplete r v ok = []) \<and>
   (sound r = Some h \<longrightarrow>
      handleSlidingComplete r v True =
        [Call (SetPositionAsync h v), SetPosition (Num v), SetIsSeeking False] \<and>
      run (handleSlidingComplete r v True) s = s\<lparr>position := Num v, isSeeking := False\<rparr>) \<and>
   (mounted w \<and> sound (ui w) = None \<longrightarrow> step w (SlidingComplete v ok) = w) \<and>
   (mounted w \<and> sound (ui w) = Some h \<longrightarrow>
      ui (step w (SlidingComplete v True)) = (ui w)\<lparr>position := Num v, isSeeking := False\<rparr> \<and>
      trace (step w (SlidingComplete v True)) =
        trace w @ [Call (SetPositionAsync h v), SetPosition (Num v), SetIsSeeking False])"
  by (auto simp: handleSlidingComplete_def run_Cons run_Nil commit_Nil commit_def Let_def)

theorem seek_commit_witness:
  "handleSlidingComplete initial_state 5000 True = [] \<and>
   handleSlidingComplete (initial_state\<lparr>sound := Some 2\<rparr>) 5000 True =
     [Call (SetPositionAsync 2 5000), SetPosition (Num 5000), SetIsSeeking False] \<and>
   mounted (run_events ''a'' [Settled 1 True, SlidingStart]) \<and>
   sound (ui (run_events ''a'' [Settled 1 True, SlidingStart])) = Some 0 \<and>
   isSeeking (ui (run_events ''a'' [Settled 1 True, SlidingStart])) \<and>
   ui (step (run_events ''a'' [Settled 1 True, SlidingStart]) (SlidingComplete 5000 True)) =
     \<lparr>sound = Some 0, isPlaying = False, duration = Num 0, position = Num 5000, volume = 1,
      isSeeking = False\<rparr> \<and>
   step (mount ''a'') (SlidingComplete 5000 True) = mount ''a''"
proof -
  let ?w = "run_events ''a'' [Settled 1 True, SlidingStart]"
  have w: "mounted ?w \<and> sound (ui ?w) = Some 0 \<and>
      ui ?w = \<lparr>sound = Some 0, isPlaying = False, duration = Num 0, position = Num 0, volume = 1,
        isSeeking = True\<rparr>"
    by (simp add: world_eval)
  have m: "mounted (mount ''a'') \<and> sound (ui (mount ''a'')) = None"
    by (simp add: world_eval)
  show ?thesis
    using seek_commit [where r = initial_state and v = 5000 and ok = True]
      seek_commit [where r = "initial_state\<lparr>sound := Some 2\<rparr>" and v = 5000 and h = 2]
      seek_commit [where w = ?w and v = 5000 and h = 0]
      seek_commit [where w = "mount ''a''" and v = 5000 and ok = True]
      w m
    by (simp add: initial_state_def)
qed

subsection \<open>Volume\<close>

text \<open>
  C3, as stated: a failure of either of the two calls of a volume commit does not keep
  the other from being attempted. This fails when the system call is the one that fails:
  with handle 0 owned and value 0.4, \<open>setVolumeAsync\<close> is not among the calls made.
\<close>

theorem volume_commit_system_failure:
  "SetVolumeAsync 0 (2 / 5) \<notin>
     set (calls (handleVolumeChange (initial_state\<lparr>sound := Some 0\<rparr>) (2 / 5) False True))"
  by (simp add: handleVolumeChange_def initial_state_def)

text \<open>
  C3, amended. A volume commit with value \<open>v\<close> first attempts to set the system level to
  \<open>v\<close>. Only when that call did not fail does it go on: with a handle owned it attempts to
  set the resource's level to \<open>v\<close>, so a failure of the resource call comes after the
  system level was set. When the system call fails, the resource call is not attempted.
  Any failure is logged once, and the local \<open>volume\<close> is set to \<open>v\<close> only when no call
  failed.
\<close>

theorem volume_commit:
  "hd (calls (handleVolumeChange r v system_ok resource_ok)) = VolumeChange v \<and>
   (system_ok \<and> sound r = Some h \<longrightarrow>
      calls (handleVolumeChange r v system_ok resource_ok) = [VolumeChange v, SetVolumeAsync h v]) \<and>
   (system_ok \<and> sound r = None \<longrightarrow>
      handleVolumeChange r v system_ok resource_ok = [Call (VolumeChange v), SetVolume v]) \<and>
   (\<not> system_ok \<longrightarrow>
      handleVolumeChange r v system_ok resource_ok =
        [Call (VolumeChange v), LogError ''Error changing volume:'']) \<and>
   (system_ok \<and> sound r = Some h \<and> \<not> resource_ok \<longrightarrow>
      handleVolumeChange r v system_ok resource_ok =
        [Call (VolumeChange v), Call (SetVolumeAsync h v), LogError ''Error changing volume:'']) \<and>
   (system_ok \<and> sound r = Some h \<and> resource_ok \<longrightarrow>
      handleVolumeChange r v system_ok resource_ok =
        [Call (VolumeChange v), Call (SetVolumeAsync h v), SetVolume v]) \<and>
   volume (run (handleVolumeChange r v system_ok resource_ok) s) =
     (if system_ok \<and> (sound r = None \<or> resource_ok) then v else volume s)"
  by (auto simp: handleVolumeChange_def run_Cons run_Nil split: option.split)

theorem volume_commit_witness:
  "calls (handleVolumeChange (initial_state\<lparr>sound := Some 0\<rparr>) (2 / 5) True False) =
     [VolumeChange (2 / 5), SetVolumeAsync 0 (2 / 5)] \<and>
   handleVolumeChange initial_state (2 / 5) True True = [Call (VolumeChange (2 / 5)), SetVolume (2 / 5)] \<and>
   handleVolumeChange (initial_state\<lparr>sound := Some 0\<rparr>) (2 / 5) False True =
     [Call (VolumeChange (2 / 5)), LogError ''Error changing volume:''] \<and>
   handleVolumeChange (initial_state\<lparr>sound := Some 0\<rparr>) (2 / 5) True False =
     [Call (VolumeChange (2 / 5)), Call (SetVolumeAsync 0 (2 / 5)),
      LogError ''Error changing volume:''] \<and>
   handleVolumeChange (initial_state\<lparr>sound := Some 0\<rparr>) (2 / 5) True True =
     [Call (VolumeChange (2 / 5)), Call (SetVolumeAsync 0 (2 / 5)), SetVolume (2 / 5)]"
  using volume_commit [where r = "initial_state\<lparr>sound := Some 0\<rparr>" and v = "2 / 5" and h = 0
      and system_ok = True and resource_ok = False]
    volume_commit [where r = initial_state and v = "2 / 5" and system_ok = True
      and resource_ok = True]
    volume_commit [where r = "initial_state\<lparr>sound := Some 0\<rparr>" and v = "2 / 5"
      and system_ok = False and resource_ok = True]
    volume_commit [where r = "initial_state\<lparr>sound := Some 0\<rparr>" and v = "2 / 5" and h = 0
      and system_ok = True and resource_ok = True]
  by (simp add: initial_state_def)

text \<open>
  C8. In every state the mounted component reaches, an external volume notification with
  level \<open>v\<close> sets the local \<open>volume\<close> to \<open>v\<close> and, when a handle is owned, calls
  \<open>setVolumeAsync\<close> with \<open>v\<close> on it. A failure of that call is logged and nothing else:
  the component stays mounted with the same subscription, and the next notification is
  handled in the same way.
\<close>

theorem volume_bridge:
  assumes "w = run_events u es" and "mounted w"
  shows "volume (ui (step w (VolumeNotified v ok))) = v \<and>
    trace (step w (VolumeNotified v ok)) =
      trace w @ SetVolume v #
        (case sound (ui w) of
           None \<Rightarrow> []
         | Some h \<Rightarrow> Call (SetVolumeAsync h v) # (if ok then [] else [LogError []])) \<and>
    mounted (step w (VolumeNotified v ok)) \<and>
    listener (step w (VolumeNotified v ok)) = listener w \<and>
    listener w \<noteq> None \<and>
    volume (ui (step (step w (VolumeNotified v ok)) (VolumeNotified v' ok'))) = v'"
proof -
  have "bridge_ok w"
    unfolding assms(1) run_events_def by (rule bridge_foldl) (rule bridge_mount)
  then obtain r where r: "listener w = Some r" "sound r = sound (ui w)"
    using assms(2) by (rule listener_of_mounted)
  let ?w = "step w (VolumeNotified v ok)"
  have s1: "?w = w\<lparr>ui := run (volumeListener r v ok) (ui w),
      trace := trace w @ volumeListener r v ok\<rparr>"
    using r(1) assms(2) by (rule notified_step)
  have l1: "listener ?w = Some r" and m1: "mounted ?w"
    unfolding s1 using r(1) assms(2) by simp_all
  have s2: "step ?w (VolumeNotified v' ok') = ?w\<lparr>ui := run (volumeListener r v' ok') (ui ?w),
      trace := trace ?w @ volumeListener r v' ok'\<rparr>"
    using l1 m1 by (rule notified_step)
  have "volume (ui (step ?w (VolumeNotified v' ok'))) = v'"
    unfolding s2 by (simp add: volume_volumeListener)
  moreover have "trace ?w = trace w @ SetVolume v #
        (case sound (ui w) of
           None \<Rightarrow> []
         | Some h \<Rightarrow> Call (SetVolumeAsync h v) # (if ok then [] else [LogError []]))"
    unfolding s1 by (simp add: volumeListener_def r(2))
  moreover have "volume (ui ?w) = v"
    unfolding s1 by (simp add: volume_volumeListener)
  ultimately show ?thesis
    using l1 m1 r(1) by (simp del: step.simps)
qed

theorem volume_bridge_witness:
  "mounted (run_events ''a'' [Settled 1 True]) \<and>
   sound (ui (run_events ''a'' [Settled 1 True])) = Some 0 \<and>
   volume (ui (step (run_events ''a'' [Settled 1 True]) (VolumeNotified (1 / 2) False))) = 1 / 2 \<and>
   trace (step (run_events ''a'' [Settled 1 True]) (VolumeNotified (1 / 2) False)) =
     trace (run_events ''a'' [Settled 1 True]) @
       [SetVolume (1 / 2), Call (SetVolumeAsync 0 (1 / 2)), LogError []] \<and>
   volume (ui (step (step (run_events ''a'' [Settled 1 True]) (VolumeNotified (1 / 2) False))
     (VolumeNotified (1 / 4) True))) = 1 / 4"
proof -
  let ?w = "run_events ''a'' [Settled 1 True]"
  have w: "mounted ?w \<and> sound (ui ?w) = Some 0"
    by (simp add: world_eval)
  then have "mounted ?w" by simp
  from volume_bridge [OF refl this, where v = "1 / 2" and ok = False and v' = "1 / 4" and ok' = True]
  show ?thesis using w by (simp del: step.simps)
qed

end
